theory Spec2Isabelle
  imports Main
begin

section \<open>The image resizing worker (src/index.ts)\<close>

text \<open>
  The worker is one asynchronous function, \<open>handleRequest\<close>, wrapped by the exported
  \<open>fetch\<close> handler that turns every uncaught exception into a 500 response. The model
  follows the source statement by statement. What the JavaScript runtime supplies
  (\<open>atob\<close>, the URL parser, the edge cache, the global \<open>fetch\<close> with Cloudflare image
  options) is a parameter of the model, collected in the record \<open>runtime\<close>; the bindings
  of \<open>Env\<close> are the record \<open>env\<close>. The calls made on the cache tiers, the console and
  \<open>ctx.waitUntil\<close> are recorded, in program order, in a list of events.
\<close>

subsection \<open>JavaScript values\<close>

type_synonym bytes = "nat list"

text \<open>
  A property of \<open>resizeOptions\<close> holds a string or \<open>undefined\<close>. \<open>ToBoolean\<close> is false
  for \<open>undefined\<close> and for the empty string; a template literal renders \<open>undefined\<close> as
  the text \<open>undefined\<close>.
\<close>

datatype jsval = Undefined | Str string

fun truthy :: "jsval \<Rightarrow> bool" where
  "truthy Undefined = False"
| "truthy (Str s) = (s \<noteq> [])"

fun to_text :: "jsval \<Rightarrow> string" where
  "to_text Undefined = ''undefined''"
| "to_text (Str s) = s"

text \<open>
  \<open>url.searchParams.get(k) || undefined\<close>: \<open>get\<close> yields a string or \<open>null\<close>
  (\<open>None\<close>); a \<open>null\<close> or empty result is replaced by \<open>undefined\<close>.
\<close>

fun or_undefined :: "string option \<Rightarrow> jsval" where
  "or_undefined None = Undefined"
| "or_undefined (Some s) = (if s = [] then Undefined else Str s)"

text \<open>
  An object literal with string keys: an association list in insertion order.
  Assigning to an existing property keeps its position; a new property goes last.
  Reading a missing property gives \<open>undefined\<close>. \<open>Object.entries\<close> lists every own
  property, also one whose value is \<open>undefined\<close>.
\<close>

type_synonym js_object = "(string \<times> jsval) list"

fun set_prop :: "js_object \<Rightarrow> string \<Rightarrow> jsval \<Rightarrow> js_object" where
  "set_prop [] k v = [(k, v)]"
| "set_prop (p # ps) k v = (if fst p = k then (k, v) # ps else p # set_prop ps k v)"

definition get_prop :: "js_object \<Rightarrow> string \<Rightarrow> jsval" where
  "get_prop ob k = (case map_of ob k of None \<Rightarrow> Undefined | Some v \<Rightarrow> v)"

definition has_prop :: "js_object \<Rightarrow> string \<Rightarrow> bool" where
  "has_prop ob k = (map_of ob k \<noteq> None)"

text \<open>\<open>Array.prototype.join\<close>.\<close>

fun join :: "string \<Rightarrow> string list \<Rightarrow> string" where
  "join sep [] = []"
| "join sep [x] = x"
| "join sep (x # y # ys) = x @ sep @ join sep (y # ys)"

text \<open>Decimal rendering of a number in a template literal (non-negative integers).\<close>

definition digit :: "nat \<Rightarrow> char" where
  "digit d = ''0123456789'' ! d"

fun show_nat :: "nat \<Rightarrow> string" where
  "show_nat n = (if n < 10 then [digit n] else show_nat (n div 10) @ [digit (n mod 10)])"

declare show_nat.simps [simp del]

subsection \<open>Regular expressions of the source\<close>

text \<open>
  \<open>/image\/avif/.test(s)\<close> and \<open>/image\/webp/.test(s)\<close> search a literal anywhere in
  \<open>s\<close>. The three extension patterns end in \<open>$\<close> and carry the flag \<open>i\<close>: they test
  whether \<open>s\<close>, with the ASCII letters folded to lower case, ends in one of the listed
  suffixes.
\<close>

fun starts_with :: "string \<Rightarrow> string \<Rightarrow> bool" where
  "starts_with [] s = True"
| "starts_with (p # ps) [] = False"
| "starts_with (p # ps) (c # cs) = (p = c \<and> starts_with ps cs)"

fun re_search :: "string \<Rightarrow> string \<Rightarrow> bool" where
  "re_search pat [] = (pat = [])"
| "re_search pat (c # cs) = (starts_with pat (c # cs) \<or> re_search pat cs)"

definition lower :: "char \<Rightarrow> char" where
  "lower c = (case map_of (zip ''ABCDEFGHIJKLMNOPQRSTUVWXYZ'' ''abcdefghijklmnopqrstuvwxyz'') c of
                None \<Rightarrow> c | Some d \<Rightarrow> d)"

definition ends_with_ci :: "string \<Rightarrow> string \<Rightarrow> bool" where
  "ends_with_ci suf s = starts_with (rev suf) (rev (map lower s))"

definition allowed_extension :: "string \<Rightarrow> bool" where
  \<comment> \<open>\<open>/\.(jpe?g|png|gif|webp)$/i\<close>\<close>
  "allowed_extension pathname =
     (ends_with_ci ''.jpg'' pathname \<or> ends_with_ci ''.jpeg'' pathname \<or>
      ends_with_ci ''.png'' pathname \<or> ends_with_ci ''.gif'' pathname \<or>
      ends_with_ci ''.webp'' pathname)"

subsection \<open>Requests, responses and the environment\<close>

text \<open>
  \<open>URLSearchParams\<close>: the decoded name/value pairs of the query string, in order.
  \<open>has\<close> tells whether a name occurs, \<open>get\<close> returns the first value of a name or
  \<open>null\<close>.
\<close>

type_synonym search_params = "(string \<times> string) list"

definition sp_has :: "search_params \<Rightarrow> string \<Rightarrow> bool" where
  "sp_has sp k = (map_of sp k \<noteq> None)"

definition sp_get :: "search_params \<Rightarrow> string \<Rightarrow> string option" where
  "sp_get sp k = map_of sp k"

text \<open>
  \<open>Headers.get\<close>: names compare without regard to ASCII case; the values of a
  repeated name are joined by a comma and a space; \<open>null\<close> when the name is missing.
\<close>

type_synonym header_list = "(string \<times> string) list"

definition headers_get :: "header_list \<Rightarrow> string \<Rightarrow> string option" where
  "headers_get hs name =
     (let vs = map snd (filter (\<lambda>h. map lower (fst h) = map lower name) hs)
      in if vs = [] then None else Some (join '', '' vs))"

text \<open>
  The inbound request: \<open>req_url\<close> is \<open>url.toString()\<close> for \<open>url = new URL(request.url)\<close>,
  \<open>req_searchParams\<close> is \<open>url.searchParams\<close>, \<open>req_headers\<close> is \<open>request.headers\<close>.
\<close>

record request =
  req_url :: string
  req_searchParams :: search_params
  req_headers :: header_list

datatype body = NoBody | Text string | Binary bytes

record response =
  status :: nat
  statusText :: string
  headers :: header_list
  body :: body

text \<open>The request built for the image service: \<open>fetch(new Request(imageURL, {headers}), {cf: {image}})\<close>.\<close>

record image_request =
  target :: string
  forwarded :: header_list
  cf_image :: js_object

text \<open>
  What the image service call does: the \<open>try\<close> block throws (\<open>Thrown\<close>), or a response
  arrives with a status, whose body is then read by \<open>arrayBuffer()\<close>; reading rejects
  with a message (\<open>Inl\<close>) or delivers the bytes (\<open>Inr\<close>).
\<close>

datatype fetch_outcome = Thrown | Completed nat "string + bytes"

text \<open>
  The runtime: \<open>atob\<close> and \<open>new URL\<close> throw (\<open>Inl\<close>, with the message of the exception)
  or return; the parsed URL is given by its \<open>hostname\<close> and \<open>pathname\<close>;
  \<open>caches_default\<close> is the content of \<open>caches.default\<close>; \<open>images_fetch\<close> is the global
  \<open>fetch\<close>.
\<close>

record runtime =
  atob :: "string \<Rightarrow> string + string"
  new_URL :: "string \<Rightarrow> string + (string \<times> string)"
  caches_default :: "string \<rightharpoonup> response"
  images_fetch :: "image_request \<Rightarrow> fetch_outcome"

record env =
  CACHE_BUCKET :: "string \<rightharpoonup> bytes"
  CACHE_DURATION :: "nat option"

datatype event =
    Log string
  | CacheMatch string
  | BucketGet string
  | ImagesFetch image_request
  | WaitUntil_BucketPut string bytes
  | WaitUntil_CachePut string response

text \<open>The result of \<open>handleRequest\<close>: a thrown error (its message) or the response returned.\<close>

type_synonym outcome = "(string + response) \<times> event list"

definition maxAge :: nat where
  "maxAge = 180 * 24 * 60 * 60"

subsection \<open>Option parsing and format negotiation (lines 24 to 46)\<close>

text \<open>\<open>if (url.searchParams.has(q)) resizeOptions[key] = url.searchParams.get(q) || undefined\<close>\<close>

definition copy_param :: "search_params \<Rightarrow> string \<Rightarrow> string \<Rightarrow> js_object \<Rightarrow> js_object" where
  "copy_param sp q key ob =
     (if sp_has sp q then set_prop ob key (or_undefined (sp_get sp q)) else ob)"

definition copy_params :: "search_params \<Rightarrow> js_object" where
  "copy_params sp =
     copy_param sp ''q'' ''quality''
       (copy_param sp ''h'' ''height''
         (copy_param sp ''w'' ''width''
           (copy_param sp ''fit'' ''fit'' [])))"

text \<open>\<open>if (!resizeOptions.fit) { if (url.searchParams.get("enlarge") == 'true') resizeOptions.fit = 'cover' }\<close>\<close>

definition enlarge_alias :: "search_params \<Rightarrow> js_object \<Rightarrow> js_object" where
  "enlarge_alias sp ob =
     (if \<not> truthy (get_prop ob ''fit'')
      then (if sp_get sp ''enlarge'' = Some ''true'' then set_prop ob ''fit'' (Str ''cover'') else ob)
      else ob)"

text \<open>\<open>request.headers.get("Accept") || ''\<close>\<close>

definition accept_of :: "request \<Rightarrow> string" where
  "accept_of rq = (case headers_get (req_headers rq) ''Accept'' of None \<Rightarrow> [] | Some a \<Rightarrow> a)"

text \<open>The negotiation updates both \<open>resizeOptions\<close> and \<open>type\<close>.\<close>

definition negotiate :: "string \<Rightarrow> js_object \<times> string \<Rightarrow> js_object \<times> string" where
  "negotiate accept st =
     (if re_search ''image/avif'' accept then (set_prop (fst st) ''format'' (Str ''avif''), ''avif'')
      else if re_search ''image/webp'' accept then (set_prop (fst st) ''format'' (Str ''webp''), ''webp'')
      else st)"

definition parse_options :: "request \<Rightarrow> js_object \<times> string" where
  "parse_options rq =
     negotiate (accept_of rq)
       (enlarge_alias (req_searchParams rq) (copy_params (req_searchParams rq)), ''jpeg'')"

definition resizeOptions :: "request \<Rightarrow> js_object" where
  "resizeOptions rq = fst (parse_options rq)"

text \<open>Lines 68 and 69: \<open>if (/\.(png)$/i.test(pathname)) type = 'png'\<close>, then the same for gif.\<close>

definition mime_override :: "string \<Rightarrow> string \<Rightarrow> string" where
  "mime_override pathname ty =
     (let ty1 = (if ends_with_ci ''.png'' pathname then ''png'' else ty)
      in if ends_with_ci ''.gif'' pathname then ''gif'' else ty1)"

subsection \<open>Cache key (lines 72 and 73)\<close>

text \<open>The template \<open>`${key}:${val}`\<close> applied to one entry of \<open>Object.entries(resizeOptions)\<close>.\<close>

fun entry_text :: "string \<times> jsval \<Rightarrow> string" where
  "entry_text (key, val) = key @ '':'' @ to_text val"

definition optionsKey :: "js_object \<Rightarrow> string" where
  "optionsKey ob = join ''-'' (map entry_text ob)"

definition cacheKey :: "string \<Rightarrow> js_object \<Rightarrow> string" where
  "cacheKey imageURL ob = ''test-'' @ imageURL @ optionsKey ob"

subsection \<open>Response assembly (lines 111 to 127)\<close>

definition text_response :: "string \<Rightarrow> nat \<Rightarrow> response" where
  "text_response msg st = \<lparr>status = st, statusText = [], headers = [], body = Text msg\<rparr>"

definition image_headers :: "env \<Rightarrow> string \<Rightarrow> header_list" where
  "image_headers e ty =
     [(''cache-control'', ''public, max-age='' @
          show_nat (case CACHE_DURATION e of None \<Rightarrow> maxAge | Some d \<Rightarrow> d)),
      (''access-control-allow-origin'', ''*''),
      (''content-security-policy'',
          ''default-src 'none'; navigate-to 'none'; form-action 'none'' @ [CHR 0x27]),
      (''content-type'', ''image/'' @ ty)]"

text \<open>
  \<open>image\<close> has the type \<open>ArrayBuffer | undefined\<close> (\<open>None\<close> is \<open>undefined\<close>). \<open>ToBoolean\<close>
  of an object is true whatever it contains, so a buffer of length zero is truthy and
  only \<open>undefined\<close> is falsy.
\<close>

definition buffer_truthy :: "bytes option \<Rightarrow> bool" where
  "buffer_truthy img = (img \<noteq> None)"

text \<open>
  Line 111 onwards: \<open>if (!image) throw new Error('Unable to fetch image')\<close>, then the
  response is built, its clone is handed to \<open>ctx.waitUntil(cache.put(url.toString(), _))\<close>
  and it is returned.
\<close>

definition assemble :: "env \<Rightarrow> request \<Rightarrow> string \<Rightarrow> bytes option \<Rightarrow> event list \<Rightarrow> outcome" where
  "assemble e rq ty img tr =
     (case img of
        None \<Rightarrow> (Inl ''Unable to fetch image'', tr)
      | Some buf \<Rightarrow>
          (let resp = \<lparr>status = 200, statusText = [], headers = image_headers e ty,
                        body = Binary buf\<rparr>
           in (Inr resp, tr @ [WaitUntil_CachePut (req_url rq) resp])))"

subsection \<open>The cache waterfall (lines 74 to 108)\<close>

definition from_images :: "runtime \<Rightarrow> env \<Rightarrow> request \<Rightarrow> string \<Rightarrow> js_object \<Rightarrow> string \<Rightarrow> event list \<Rightarrow> outcome" where
  "from_images R e rq imageURL ob ty tr =
     (let imageRequest = \<lparr>target = imageURL, forwarded = req_headers rq, cf_image = ob\<rparr>;
          tr1 = tr @ [Log (''R2 miss for: '' @ cacheKey imageURL ob @ ''.''), ImagesFetch imageRequest]
      in case images_fetch R imageRequest of
           Thrown \<Rightarrow>
             (Inr \<lparr>status = 404, statusText = ''Not Found'', headers = [], body = NoBody\<rparr>, tr1)
         | Completed st rd \<Rightarrow>
             (let tr2 = tr1 @ [Log (''Images fetch response: '' @ show_nat st)]
              in case rd of
                   Inl msg \<Rightarrow> (Inl msg, tr2)
                 | Inr buf \<Rightarrow>
                     (let img = Some buf;
                          tr3 = (if buffer_truthy img
                                 then tr2 @ [WaitUntil_BucketPut (cacheKey imageURL ob) buf]
                                 else tr2)
                      in assemble e rq ty img tr3)))"

definition waterfall :: "runtime \<Rightarrow> env \<Rightarrow> request \<Rightarrow> string \<Rightarrow> js_object \<Rightarrow> string \<Rightarrow> outcome" where
  "waterfall R e rq imageURL ob ty =
     (case caches_default R (req_url rq) of
        Some cached \<Rightarrow> (Inr cached, [CacheMatch (req_url rq)])
      | None \<Rightarrow>
          (let tr = [CacheMatch (req_url rq),
                     Log (''Cache miss for: '' @ cacheKey imageURL ob @ ''.''),
                     BucketGet (cacheKey imageURL ob)];
               img = CACHE_BUCKET e (cacheKey imageURL ob)
           in if \<not> buffer_truthy img then from_images R e rq imageURL ob ty tr
              else assemble e rq ty img tr))"

subsection \<open>The handler (lines 10 to 73)\<close>

text \<open>
  The \<open>try\<close> block of lines 55 to 65 holds two regular expression tests and a string
  comparison, none of which throws, so its \<open>catch\<close> branch has no path leading to it;
  \<open>atob\<close> and \<open>new URL\<close> are called before the block and their exceptions leave
  \<open>handleRequest\<close>.
\<close>

definition handleRequest :: "runtime \<Rightarrow> request \<Rightarrow> env \<Rightarrow> outcome" where
  \<open>handleRequest R rq e =
     (let sp = req_searchParams rq;
          st = parse_options rq
      in case sp_get sp ''src'' of
           None \<Rightarrow> (Inr (text_response ''Missing "image" value'' 400), [])
         | Some imageURLBase64 \<Rightarrow>
             if imageURLBase64 = [] then (Inr (text_response ''Missing "image" value'' 400), [])
             else
               (case atob R imageURLBase64 of
                  Inl msg \<Rightarrow> (Inl msg, [])
                | Inr imageURL \<Rightarrow>
                    (case new_URL R imageURL of
                       Inl msg \<Rightarrow> (Inl msg, [])
                     | Inr (hostname, pathname) \<Rightarrow>
                         if \<not> allowed_extension pathname
                         then (Inr (text_response ''Disallowed file extension'' 400), [])
                         else if hostname \<noteq> ''s3.medialoot.com''
                         then (Inr (text_response ''Invalid url for source images'' 403), [])
                         else waterfall R e rq imageURL (fst st)
                                (mime_override pathname (snd st)))))\<close>

text \<open>The exported handler: \<open>catch (e) { return new Response(e.message, { status: 500 }) }\<close>.\<close>

definition fetch :: "runtime \<Rightarrow> request \<Rightarrow> env \<Rightarrow> response \<times> event list" where
  "fetch R rq e =
     (case handleRequest R rq e of
        (Inl msg, tr) \<Rightarrow> (text_response msg 500, tr)
      | (Inr resp, tr) \<Rightarrow> (resp, tr))"

subsection \<open>Notions used in the statements\<close>

text \<open>
  A request passes the source checks of lines 49 to 65 when \<open>src\<close> is present and not
  empty, decodes to \<open>imageURL\<close>, and \<open>imageURL\<close> parses to the allowed host and a
  \<open>pathname\<close> with an allowed extension.
\<close>

definition valid_source :: "runtime \<Rightarrow> request \<Rightarrow> string \<Rightarrow> string \<Rightarrow> bool" where
  "valid_source R rq imageURL pathname =
     (case sp_get (req_searchParams rq) ''src'' of
        None \<Rightarrow> False
      | Some b64 \<Rightarrow>
          b64 \<noteq> [] \<and> atob R b64 = Inr imageURL \<and>
          new_URL R imageURL = Inr (''s3.medialoot.com'', pathname) \<and>
          allowed_extension pathname)"

text \<open>
  Format resolution as the specification words it: the extensions png and gif win,
  then avif, then webp, then jpeg.
\<close>

definition spec_format :: "string \<Rightarrow> string \<Rightarrow> string" where
  "spec_format accept pathname =
     (if ends_with_ci ''.png'' pathname then ''png''
      else if ends_with_ci ''.gif'' pathname then ''gif''
      else if re_search ''image/avif'' accept then ''avif''
      else if re_search ''image/webp'' accept then ''webp''
      else ''jpeg'')"

text \<open>The format entry that the Accept header alone determines.\<close>

definition negotiated_format :: "string \<Rightarrow> jsval" where
  "negotiated_format accept =
     (if re_search ''image/avif'' accept then Str ''avif''
      else if re_search ''image/webp'' accept then Str ''webp''
      else Undefined)"

text \<open>
  The value that the alias of line 35 supplies for \<open>fit\<close>, and the value of \<open>fit\<close> after
  lines 29 to 36.
\<close>

definition alias_value :: "search_params \<Rightarrow> jsval" where
  "alias_value sp = (if sp_get sp ''enlarge'' = Some ''true'' then Str ''cover'' else Undefined)"

definition fit_value :: "search_params \<Rightarrow> jsval" where
  "fit_value sp =
     (case sp_get sp ''fit'' of
        None \<Rightarrow> alias_value sp
      | Some v \<Rightarrow> if v = [] then alias_value sp else Str v)"

text \<open>
  Option values that cannot be confused in the serialised key: no value of \<open>fit\<close>,
  \<open>w\<close>, \<open>h\<close> or \<open>q\<close> contains the separator \<open>-\<close> or is the text \<open>undefined\<close>.
\<close>

definition plain_value :: "string option \<Rightarrow> bool" where
  "plain_value v =
     (case v of None \<Rightarrow> True | Some s \<Rightarrow> CHR ''-'' \<notin> set s \<and> s \<noteq> ''undefined'')"

definition plain_options :: "request \<Rightarrow> bool" where
  "plain_options rq =
     (plain_value (sp_get (req_searchParams rq) ''fit'') \<and>
      plain_value (sp_get (req_searchParams rq) ''w'') \<and>
      plain_value (sp_get (req_searchParams rq) ''h'') \<and>
      plain_value (sp_get (req_searchParams rq) ''q''))"

text \<open>
  An entry of \<open>resizeOptions\<close> whose text can be read back from the key: the name is one
  of the five names the parser uses, the value is \<open>undefined\<close> or such a string.
\<close>

definition plain_entry :: "string \<times> jsval \<Rightarrow> bool" where
  "plain_entry p =
     (fst p \<in> set [''fit'', ''width'', ''height'', ''quality'', ''format''] \<and>
      (case snd p of Undefined \<Rightarrow> True | Str s \<Rightarrow> CHR ''-'' \<notin> set s \<and> s \<noteq> ''undefined''))"

text \<open>
  Two requests agree on what the option parser reads: the parameters \<open>fit\<close>, \<open>w\<close>,
  \<open>h\<close>, \<open>q\<close>, \<open>enlarge\<close>, and whether the Accept header mentions avif and webp.
\<close>

definition same_options :: "request \<Rightarrow> request \<Rightarrow> bool" where
  "same_options rq1 rq2 =
     (list_all (\<lambda>k. sp_get (req_searchParams rq1) k = sp_get (req_searchParams rq2) k)
        [''fit'', ''w'', ''h'', ''q'', ''enlarge''] \<and>
      re_search ''image/avif'' (accept_of rq1) = re_search ''image/avif'' (accept_of rq2) \<and>
      re_search ''image/webp'' (accept_of rq1) = re_search ''image/webp'' (accept_of rq2))"

subsection \<open>A runtime for the examples\<close>

text \<open>
  The examples run on a runtime that knows three base64 strings and two URLs and throws
  on every other string: \<open>!!!\<close> is not base64, and \<open>not a url\<close> does not parse.
  The image service answers every call in the same way.
\<close>

definition lookup_or_throw :: "string \<Rightarrow> (string \<times> 'a) list \<Rightarrow> string \<Rightarrow> string + 'a" where
  "lookup_or_throw msg table s = (case map_of table s of None \<Rightarrow> Inl msg | Some v \<Rightarrow> Inr v)"

definition always :: "fetch_outcome \<Rightarrow> image_request \<Rightarrow> fetch_outcome" where
  "always out rq = out"

definition example_runtime :: "(string \<rightharpoonup> response) \<Rightarrow> fetch_outcome \<Rightarrow> runtime" where
  "example_runtime cache out =
     \<lparr>atob = lookup_or_throw ''InvalidCharacterError''
         [(''aHR0cHM6Ly9zMy5tZWRpYWxvb3QuY29tL2EucG5n'', ''https://s3.medialoot.com/a.png''),
          (''aHR0cHM6Ly9zMy5tZWRpYWxvb3QuY29tL2EuanBn'', ''https://s3.medialoot.com/a.jpg''),
          (''bm90IGEgdXJs'', ''not a url'')],
      new_URL = lookup_or_throw ''Invalid URL''
         [(''https://s3.medialoot.com/a.png'', (''s3.medialoot.com'', ''/a.png'')),
          (''https://s3.medialoot.com/a.jpg'', (''s3.medialoot.com'', ''/a.jpg''))],
      caches_default = cache,
      images_fetch = always out\<rparr>"

definition example_env :: "(string \<rightharpoonup> bytes) \<Rightarrow> env" where
  "example_env bucket = \<lparr>CACHE_BUCKET = bucket, CACHE_DURATION = None\<rparr>"

text \<open>
  An example request is given by its query parameters and headers; \<open>png_request\<close> and
  \<open>jpg_request\<close> carry the base64 text of \<open>https://s3.medialoot.com/a.png\<close> and of
  \<open>https://s3.medialoot.com/a.jpg\<close> in \<open>src\<close>, followed by the given parameters.
\<close>

fun pair_text :: "string \<times> string \<Rightarrow> string" where
  "pair_text (k, v) = k @ ''='' @ v"

definition example_request :: "search_params \<Rightarrow> header_list \<Rightarrow> request" where
  "example_request sp hs =
     \<lparr>req_url = ''https://img.example/?'' @ join ''&'' (map pair_text sp),
      req_searchParams = sp, req_headers = hs\<rparr>"

definition png_request :: "search_params \<Rightarrow> header_list \<Rightarrow> request" where
  "png_request sp hs =
     example_request ((''src'', ''aHR0cHM6Ly9zMy5tZWRpYWxvb3QuY29tL2EucG5n'') # sp) hs"

definition jpg_request :: "search_params \<Rightarrow> header_list \<Rightarrow> request" where
  "jpg_request sp hs =
     example_request ((''src'', ''aHR0cHM6Ly9zMy5tZWRpYWxvb3QuY29tL2EuanBn'') # sp) hs"

text \<open>
  The request reaches the image service when both tiers miss; \<open>service_request\<close> is the
  request the worker then sends.
\<close>

definition tiers_miss :: "runtime \<Rightarrow> env \<Rightarrow> request \<Rightarrow> string \<Rightarrow> bool" where
  "tiers_miss R e rq imageURL =
     (caches_default R (req_url rq) = None \<and>
      CACHE_BUCKET e (cacheKey imageURL (resizeOptions rq)) = None)"

definition service_request :: "request \<Rightarrow> string \<Rightarrow> image_request" where
  "service_request rq imageURL =
     \<lparr>target = imageURL, forwarded = req_headers rq, cf_image = resizeOptions rq\<rparr>"

definition image_response :: "env \<Rightarrow> string \<Rightarrow> bytes \<Rightarrow> response" where
  "image_response e ty buf =
     \<lparr>status = 200, statusText = [], headers = image_headers e ty, body = Binary buf\<rparr>"

section \<open>Auxiliary facts\<close>

subsection \<open>Objects and the option parser\<close>

lemma map_of_set_prop: "map_of (set_prop ob k v) = (map_of ob)(k \<mapsto> v)"
  by (induction ob) (auto simp: fun_eq_iff)

lemma get_prop_set_prop: "get_prop (set_prop ob k v) k' = (if k' = k then v else get_prop ob k')"
  by (simp add: get_prop_def map_of_set_prop)

lemma has_prop_set_prop: "has_prop (set_prop ob k v) k' = (k' = k \<or> has_prop ob k')"
  by (simp add: has_prop_def map_of_set_prop)

lemma get_prop_Nil: "get_prop [] k = Undefined"
  by (simp add: get_prop_def)

lemma has_prop_Nil: "\<not> has_prop [] k"
  by (simp add: has_prop_def)

lemma or_undefined_eq_Str: "or_undefined x = Str v \<longleftrightarrow> x = Some v \<and> v \<noteq> []"
  by (cases x) auto

lemma get_prop_copy_param:
  "get_prop (copy_param sp q key ob) k =
     (if k = key \<and> sp_has sp q then or_undefined (sp_get sp q) else get_prop ob k)"
  by (simp add: copy_param_def get_prop_set_prop)

lemma has_prop_copy_param:
  "has_prop (copy_param sp q key ob) k = (k = key \<and> sp_has sp q \<or> has_prop ob k)"
  by (auto simp add: copy_param_def has_prop_set_prop)

lemma or_undefined_absent: "\<not> sp_has sp q \<Longrightarrow> or_undefined (sp_get sp q) = Undefined"
  by (simp add: sp_has_def sp_get_def)

lemma get_prop_copy_params:
  "get_prop (copy_params sp) ''fit'' = or_undefined (sp_get sp ''fit'')"
  "get_prop (copy_params sp) ''width'' = or_undefined (sp_get sp ''w'')"
  "get_prop (copy_params sp) ''height'' = or_undefined (sp_get sp ''h'')"
  "get_prop (copy_params sp) ''quality'' = or_undefined (sp_get sp ''q'')"
  by (simp_all add: copy_params_def get_prop_copy_param get_prop_Nil or_undefined_absent)

lemma has_prop_copy_params:
  "has_prop (copy_params sp) ''fit'' = sp_has sp ''fit''"
  "has_prop (copy_params sp) ''width'' = sp_has sp ''w''"
  "has_prop (copy_params sp) ''height'' = sp_has sp ''h''"
  "has_prop (copy_params sp) ''quality'' = sp_has sp ''q''"
  "\<not> has_prop (copy_params sp) ''format''"
  by (simp_all add: copy_params_def has_prop_copy_param has_prop_Nil)

lemma get_prop_enlarge_alias:
  "get_prop (enlarge_alias sp ob) k =
     (if k = ''fit'' \<and> \<not> truthy (get_prop ob ''fit'') \<and> sp_get sp ''enlarge'' = Some ''true''
      then Str ''cover'' else get_prop ob k)"
  by (simp add: enlarge_alias_def get_prop_set_prop)

lemma has_prop_enlarge_alias:
  "has_prop (enlarge_alias sp ob) k =
     (k = ''fit'' \<and> \<not> truthy (get_prop ob ''fit'') \<and> sp_get sp ''enlarge'' = Some ''true''
      \<or> has_prop ob k)"
  by (auto simp add: enlarge_alias_def has_prop_set_prop)

lemma get_prop_negotiate:
  "get_prop (fst (negotiate a (ob, ty))) k =
     (if k = ''format'' \<and> (re_search ''image/avif'' a \<or> re_search ''image/webp'' a)
      then negotiated_format a else get_prop ob k)"
  by (simp add: negotiate_def negotiated_format_def get_prop_set_prop)

lemma has_prop_negotiate:
  "has_prop (fst (negotiate a (ob, ty))) k =
     (k = ''format'' \<and> (re_search ''image/avif'' a \<or> re_search ''image/webp'' a) \<or> has_prop ob k)"
  by (auto simp add: negotiate_def has_prop_set_prop)

lemma truthy_or_undefined: "truthy (or_undefined x) \<longleftrightarrow> (\<exists>v. x = Some v \<and> v \<noteq> [])"
  by (cases x) auto

lemma get_fit: "get_prop (resizeOptions rq) ''fit'' = fit_value (req_searchParams rq)"
  by (auto simp add: resizeOptions_def parse_options_def get_prop_negotiate get_prop_enlarge_alias
      get_prop_copy_params fit_value_def alias_value_def truthy_or_undefined split: option.splits)


lemma handleRequest_valid:
  assumes "valid_source R rq u p"
  shows "handleRequest R rq e =
           waterfall R e rq u (resizeOptions rq) (mime_override p (snd (parse_options rq)))"
  using assms
  by (auto simp add: valid_source_def handleRequest_def resizeOptions_def Let_def
      split: option.splits)

lemma png_not_gif: "\<not> (ends_with_ci ''.png'' p \<and> ends_with_ci ''.gif'' p)"
  by (cases "rev (map lower p)") (auto simp add: ends_with_ci_def)

lemma snd_negotiate:
  "snd (negotiate a (ob, ''jpeg'')) =
     (if re_search ''image/avif'' a then ''avif''
      else if re_search ''image/webp'' a then ''webp'' else ''jpeg'')"
  by (simp add: negotiate_def)

lemma type_resolution:
  "mime_override p (snd (parse_options rq)) = spec_format (accept_of rq) p"
  using png_not_gif [of p]
  by (simp add: mime_override_def parse_options_def snd_negotiate spec_format_def Let_def)

lemma starts_with_append: "starts_with xs (xs @ ys)"
  by (induction xs) auto

lemma ends_with_ci_literal:
  assumes "map lower suf = suf"
  shows "ends_with_ci suf (p @ suf)"
  using assms by (simp add: ends_with_ci_def starts_with_append)

lemma waterfall_edge_hit:
  "caches_default R (req_url rq) = Some cached \<Longrightarrow>
   waterfall R e rq u ob ty = (Inr cached, [CacheMatch (req_url rq)])"
  by (simp add: waterfall_def)

lemma waterfall_bucket_hit:
  "caches_default R (req_url rq) = None \<Longrightarrow> CACHE_BUCKET e (cacheKey u ob) = Some buf \<Longrightarrow>
   waterfall R e rq u ob ty =
     (Inr \<lparr>status = 200, statusText = [], headers = image_headers e ty, body = Binary buf\<rparr>,
      [CacheMatch (req_url rq),
       Log (''Cache miss for: '' @ cacheKey u ob @ ''.''),
       BucketGet (cacheKey u ob),
       WaitUntil_CachePut (req_url rq)
         \<lparr>status = 200, statusText = [], headers = image_headers e ty, body = Binary buf\<rparr>])"
  by (simp add: waterfall_def assemble_def buffer_truthy_def Let_def)

lemma waterfall_miss:
  "caches_default R (req_url rq) = None \<Longrightarrow> CACHE_BUCKET e (cacheKey u ob) = None \<Longrightarrow>
   waterfall R e rq u ob ty =
     from_images R e rq u ob ty
       [CacheMatch (req_url rq),
        Log (''Cache miss for: '' @ cacheKey u ob @ ''.''),
        BucketGet (cacheKey u ob)]"
  by (simp add: waterfall_def buffer_truthy_def Let_def)

lemma from_images_thrown:
  "images_fetch R \<lparr>target = u, forwarded = req_headers rq, cf_image = ob\<rparr> = Thrown \<Longrightarrow>
   from_images R e rq u ob ty tr =
     (Inr \<lparr>status = 404, statusText = ''Not Found'', headers = [], body = NoBody\<rparr>,
      tr @ [Log (''R2 miss for: '' @ cacheKey u ob @ ''.''),
            ImagesFetch \<lparr>target = u, forwarded = req_headers rq, cf_image = ob\<rparr>])"
  by (simp add: from_images_def Let_def)

lemma from_images_completed:
  "images_fetch R \<lparr>target = u, forwarded = req_headers rq, cf_image = ob\<rparr> = Completed st (Inr buf) \<Longrightarrow>
   from_images R e rq u ob ty tr =
     (Inr \<lparr>status = 200, statusText = [], headers = image_headers e ty, body = Binary buf\<rparr>,
      tr @ [Log (''R2 miss for: '' @ cacheKey u ob @ ''.''),
            ImagesFetch \<lparr>target = u, forwarded = req_headers rq, cf_image = ob\<rparr>,
            Log (''Images fetch response: '' @ show_nat st),
            WaitUntil_BucketPut (cacheKey u ob) buf,
            WaitUntil_CachePut (req_url rq)
              \<lparr>status = 200, statusText = [], headers = image_headers e ty, body = Binary buf\<rparr>])"
  by (simp add: from_images_def assemble_def buffer_truthy_def Let_def)

lemma content_type_image_headers:
  "map_of (image_headers e ty) ''content-type'' = Some (''image/'' @ ty)"
  by (simp add: image_headers_def)


lemma split_at_char:
  assumes "c \<notin> set x" "c \<notin> set y" "x @ r = y @ s"
    and "r = [] \<or> hd r = c" "s = [] \<or> hd s = c"
  shows "x = y \<and> r = s"
  using assms
proof (induction x arbitrary: y)
  case Nil
  then show ?case by (cases y) auto
next
  case (Cons a x)
  then show ?case by (cases y) auto
qed

lemma join_Cons: "join sep (x # xs) = x @ (if xs = [] then [] else sep @ join sep xs)"
  by (cases xs) auto

lemma join_eq_Nil:
  assumes "\<forall>x\<in>set xs. x \<noteq> []" "join sep xs = []"
  shows "xs = []"
  using assms by (cases xs) (auto simp add: join_Cons)

lemma join_dash_inj:
  assumes "\<forall>x\<in>set xs. x \<noteq> [] \<and> CHR ''-'' \<notin> set x"
    and "\<forall>y\<in>set ys. y \<noteq> [] \<and> CHR ''-'' \<notin> set y"
    and "join ''-'' xs = join ''-'' ys"
  shows "xs = ys"
  using assms
proof (induction xs arbitrary: ys)
  case Nil
  then have "join ''-'' ys = []" by simp
  with Nil.prems(2) have "ys = []" by (intro join_eq_Nil [of ys "''-''"]) auto
  then show ?case by simp
next
  case (Cons x xs)
  show ?case
  proof (cases ys)
    case Nil
    with Cons.prems have "join ''-'' (x # xs) = []" by simp
    with Cons.prems(1) have "x # xs = []" by (intro join_eq_Nil [of "x # xs" "''-''"]) auto
    then show ?thesis by simp
  next
    case (Cons y ys')
    let ?r = "if xs = [] then [] else ''-'' @ join ''-'' xs"
    let ?s = "if ys' = [] then [] else ''-'' @ join ''-'' ys'"
    from Cons.prems(3) Cons have eq: "x @ ?r = y @ ?s" by (simp only: join_Cons)
    have "x = y \<and> ?r = ?s"
    proof (rule split_at_char [OF _ _ eq])
      show "CHR ''-'' \<notin> set x" using Cons.prems(1) by simp
      show "CHR ''-'' \<notin> set y" using Cons.prems(2) Cons by simp
    qed auto
    then have xy: "x = y" and rs: "?r = ?s" by blast+
    have "xs = ys'"
    proof (cases "xs = []")
      case True
      with rs show ?thesis by (auto split: if_splits)
    next
      case False
      with rs have "ys' \<noteq> []" and "join ''-'' xs = join ''-'' ys'" by (auto split: if_splits)
      with Cons.IH [of ys'] Cons.prems(1,2) Cons show ?thesis by simp
    qed
    with xy Cons show ?thesis by simp
  qed
qed

lemma plain_entry_text:
  assumes "plain_entry p"
  shows "entry_text p \<noteq> [] \<and> CHR ''-'' \<notin> set (entry_text p)"
  using assms by (cases p; cases "snd p") (auto simp add: plain_entry_def)

lemma to_text_plain_inj:
  assumes "case v of Undefined \<Rightarrow> True | Str s \<Rightarrow> CHR ''-'' \<notin> set s \<and> s \<noteq> ''undefined''"
    and "case w of Undefined \<Rightarrow> True | Str s \<Rightarrow> CHR ''-'' \<notin> set s \<and> s \<noteq> ''undefined''"
    and "to_text v = to_text w"
  shows "v = w"
  using assms by (cases v; cases w) auto

lemma entry_text_inj:
  assumes "plain_entry p" "plain_entry q" "entry_text p = entry_text q"
  shows "p = q"
proof -
  have eq: "fst p @ ('':'' @ to_text (snd p)) = fst q @ ('':'' @ to_text (snd q))"
    using assms(3) by (cases p; cases q) simp
  have "fst p = fst q \<and> '':'' @ to_text (snd p) = '':'' @ to_text (snd q)"
  proof (rule split_at_char [OF _ _ eq])
    show "CHR '':'' \<notin> set (fst p)" using assms(1) by (auto simp add: plain_entry_def)
    show "CHR '':'' \<notin> set (fst q)" using assms(2) by (auto simp add: plain_entry_def)
  qed auto
  then have k: "fst p = fst q" and t: "to_text (snd p) = to_text (snd q)" by auto
  have "snd p = snd q"
    using assms(1,2) t by (intro to_text_plain_inj) (auto simp add: plain_entry_def)
  with k show ?thesis by (simp add: prod_eq_iff)
qed


lemma optionsKey_inj:
  assumes "list_all plain_entry a" "list_all plain_entry b" "optionsKey a = optionsKey b"
  shows "a = b"
proof -
  have "map entry_text a = map entry_text b"
  proof (rule join_dash_inj)
    show "\<forall>x\<in>set (map entry_text a). x \<noteq> [] \<and> CHR ''-'' \<notin> set x"
      using assms(1) plain_entry_text by (auto simp add: list_all_iff)
    show "\<forall>y\<in>set (map entry_text b). y \<noteq> [] \<and> CHR ''-'' \<notin> set y"
      using assms(2) plain_entry_text by (auto simp add: list_all_iff)
    show "join ''-'' (map entry_text a) = join ''-'' (map entry_text b)"
      using assms(3) by (simp add: optionsKey_def)
  qed
  moreover have "inj_on entry_text (set a \<union> set b)"
  proof (rule inj_onI)
    fix p q
    assume "p \<in> set a \<union> set b" "q \<in> set a \<union> set b" "entry_text p = entry_text q"
    moreover from this assms(1,2) have "plain_entry p" "plain_entry q"
      by (auto simp add: list_all_iff)
    ultimately show "p = q" by (intro entry_text_inj)
  qed
  ultimately show ?thesis by (simp add: inj_on_map_eq_map)
qed

lemma plain_set_prop:
  assumes "list_all plain_entry ob" "plain_entry (k, v)"
  shows "list_all plain_entry (set_prop ob k v)"
  using assms by (induction ob) auto

lemma plain_or_undefined:
  assumes "plain_value x" "k \<in> set [''fit'', ''width'', ''height'', ''quality'', ''format'']"
  shows "plain_entry (k, or_undefined x)"
  using assms by (cases x) (auto simp add: plain_value_def plain_entry_def)

lemma plain_copy_param:
  assumes "list_all plain_entry ob" "plain_value (sp_get sp q)"
    and "k \<in> set [''fit'', ''width'', ''height'', ''quality'', ''format'']"
  shows "list_all plain_entry (copy_param sp q k ob)"
  using assms by (simp add: copy_param_def plain_set_prop plain_or_undefined del: set_simps)

lemma plain_resizeOptions:
  assumes "plain_options rq"
  shows "list_all plain_entry (resizeOptions rq)"
proof -
  let ?sp = "req_searchParams rq"
  have "list_all plain_entry (copy_params ?sp)"
    unfolding copy_params_def using assms
    by (intro plain_copy_param) (simp_all add: plain_options_def)
  then have "list_all plain_entry (enlarge_alias ?sp (copy_params ?sp))"
    by (simp add: enlarge_alias_def plain_set_prop plain_entry_def)
  then show ?thesis
    by (simp add: resizeOptions_def parse_options_def negotiate_def plain_set_prop plain_entry_def)
qed

lemma cacheKey_same_src:
  "cacheKey u a = cacheKey u b \<longleftrightarrow> optionsKey a = optionsKey b"
  by (simp add: cacheKey_def)

lemma cacheKey_same_options:
  "cacheKey u ob = cacheKey u' ob \<longleftrightarrow> u = u'"
  by (simp add: cacheKey_def)

subsection \<open>The pipeline on a valid source\<close>

lemma handleRequest_valid_format:
  assumes "valid_source R rq u p"
  shows "handleRequest R rq e =
           waterfall R e rq u (resizeOptions rq) (spec_format (accept_of rq) p)"
  using handleRequest_valid [OF assms] by (simp add: type_resolution)

lemma handleRequest_completed:
  assumes "valid_source R rq u p" and "tiers_miss R e rq u"
    and "images_fetch R (service_request rq u) = Completed st (Inr buf)"
  shows "handleRequest R rq e =
     (Inr (image_response e (spec_format (accept_of rq) p) buf),
      [CacheMatch (req_url rq),
       Log (''Cache miss for: '' @ cacheKey u (resizeOptions rq) @ ''.''),
       BucketGet (cacheKey u (resizeOptions rq)),
       Log (''R2 miss for: '' @ cacheKey u (resizeOptions rq) @ ''.''),
       ImagesFetch (service_request rq u),
       Log (''Images fetch response: '' @ show_nat st),
       WaitUntil_BucketPut (cacheKey u (resizeOptions rq)) buf,
       WaitUntil_CachePut (req_url rq) (image_response e (spec_format (accept_of rq) p) buf)])"
  using assms
  by (simp add: handleRequest_valid_format tiers_miss_def waterfall_miss service_request_def
      from_images_completed image_response_def)

lemma handleRequest_thrown:
  assumes "valid_source R rq u p" and "tiers_miss R e rq u"
    and "images_fetch R (service_request rq u) = Thrown"
  shows "handleRequest R rq e =
     (Inr \<lparr>status = 404, statusText = ''Not Found'', headers = [], body = NoBody\<rparr>,
      [CacheMatch (req_url rq),
       Log (''Cache miss for: '' @ cacheKey u (resizeOptions rq) @ ''.''),
       BucketGet (cacheKey u (resizeOptions rq)),
       Log (''R2 miss for: '' @ cacheKey u (resizeOptions rq) @ ''.''),
       ImagesFetch (service_request rq u)])"
  using assms
  by (simp add: handleRequest_valid_format tiers_miss_def waterfall_miss service_request_def from_images_thrown)

lemma same_options_resizeOptions:
  assumes "same_options rq1 rq2"
  shows "resizeOptions rq1 = resizeOptions rq2"
  using assms
  by (simp add: same_options_def resizeOptions_def parse_options_def copy_params_def
      copy_param_def sp_has_def sp_get_def enlarge_alias_def negotiate_def)

lemma example_valid_png: "valid_source (example_runtime c out) (png_request sp hs)
   ''https://s3.medialoot.com/a.png'' ''/a.png''"
  by (simp add: valid_source_def example_runtime_def png_request_def example_request_def sp_get_def
      lookup_or_throw_def allowed_extension_def ends_with_ci_def lower_def)

lemma example_valid_jpg: "valid_source (example_runtime c out) (jpg_request sp hs)
   ''https://s3.medialoot.com/a.jpg'' ''/a.jpg''"
  by (simp add: valid_source_def example_runtime_def jpg_request_def example_request_def sp_get_def
      lookup_or_throw_def allowed_extension_def ends_with_ci_def lower_def)

lemma example_tiers_miss: "tiers_miss (example_runtime Map.empty out) (example_env Map.empty) rq u"
  by (simp add: tiers_miss_def example_runtime_def example_env_def)

lemma example_images_fetch: "images_fetch (example_runtime c out) x = out"
  by (simp add: example_runtime_def always_def)

lemmas option_eval =
  resizeOptions_def parse_options_def copy_params_def copy_param_def sp_has_def sp_get_def
  enlarge_alias_def negotiate_def accept_of_def headers_get_def get_prop_def has_prop_def
  example_request_def jpg_request_def png_request_def lower_def

lemmas key_eval = cacheKey_def optionsKey_def

lemma get_prop_format: "get_prop (resizeOptions rq) ''format'' = negotiated_format (accept_of rq)"
  by (simp add: resizeOptions_def parse_options_def get_prop_negotiate get_prop_enlarge_alias
      negotiated_format_def copy_params_def get_prop_copy_param get_prop_Nil)

lemma has_prop_format:
  "has_prop (resizeOptions rq) ''format'' \<longleftrightarrow> negotiated_format (accept_of rq) \<noteq> Undefined"
  by (simp add: resizeOptions_def parse_options_def has_prop_negotiate has_prop_enlarge_alias
      negotiated_format_def has_prop_copy_params)

lemma handleRequest_ok_headers:
  assumes "valid_source R rq u p" and "caches_default R (req_url rq) = None"
    and "handleRequest R rq e = (Inr resp, tr)" and "status resp = 200"
  shows "headers resp = image_headers e (spec_format (accept_of rq) p)"
  using assms(2-4) unfolding handleRequest_valid_format [OF assms(1)]
  by (auto simp add: waterfall_def from_images_def assemble_def buffer_truthy_def Let_def
      split: if_splits option.splits fetch_outcome.splits sum.splits)

lemma has_fit:
  "has_prop (resizeOptions rq) ''fit'' \<longleftrightarrow>
     sp_has (req_searchParams rq) ''fit'' \<or> sp_get (req_searchParams rq) ''enlarge'' = Some ''true''"
  by (auto simp add: resizeOptions_def parse_options_def has_prop_negotiate has_prop_enlarge_alias
      has_prop_copy_params get_prop_copy_params or_undefined_absent)

lemma keys_resizeOptions:
  "has_prop (resizeOptions rq) ''width'' \<longleftrightarrow> sp_has (req_searchParams rq) ''w''"
  "has_prop (resizeOptions rq) ''height'' \<longleftrightarrow> sp_has (req_searchParams rq) ''h''"
  "has_prop (resizeOptions rq) ''quality'' \<longleftrightarrow> sp_has (req_searchParams rq) ''q''"
  by (simp_all add: resizeOptions_def parse_options_def has_prop_negotiate has_prop_enlarge_alias
      has_prop_copy_params)

lemma values_resizeOptions:
  "get_prop (resizeOptions rq) ''width'' = or_undefined (sp_get (req_searchParams rq) ''w'')"
  "get_prop (resizeOptions rq) ''height'' = or_undefined (sp_get (req_searchParams rq) ''h'')"
  "get_prop (resizeOptions rq) ''quality'' = or_undefined (sp_get (req_searchParams rq) ''q'')"
  by (simp_all add: resizeOptions_def parse_options_def get_prop_negotiate get_prop_enlarge_alias
      get_prop_copy_params)

lemma fit_value_Str:
  assumes "fit_value sp = Str v"
  shows "sp_get sp ''fit'' = Some v \<and> v \<noteq> [] \<or> v = ''cover'' \<and> sp_get sp ''enlarge'' = Some ''true''"
  using assms by (auto simp add: fit_value_def alias_value_def split: option.splits if_splits)

lemma spec_format_literal:
  "spec_format a (q @ ''.png'') = ''png''" "spec_format a (q @ ''.gif'') = ''gif''"
proof -
  have png: "ends_with_ci ''.png'' (q @ ''.png'')"
    by (rule ends_with_ci_literal) (simp add: lower_def)
  have gif: "ends_with_ci ''.gif'' (q @ ''.gif'')"
    by (rule ends_with_ci_literal) (simp add: lower_def)
  show "spec_format a (q @ ''.png'') = ''png''"
    using png by (simp add: spec_format_def)
  show "spec_format a (q @ ''.gif'') = ''gif''"
    using gif png_not_gif [of "q @ ''.gif''"] by (simp add: spec_format_def)
qed

lemma spec_format_range:
  "spec_format a p \<in> set [''png'', ''gif'', ''avif'', ''webp'', ''jpeg'']"
  by (simp add: spec_format_def)

section \<open>The claims\<close>

text \<open>
  Claim C1 says that a \<open>src\<close> which is present but is not base64, or does not decode to
  a parseable URL, is answered with status 400. The worker answers it with status 500:
  \<open>atob\<close> and \<open>new URL\<close> are called before the \<open>try\<close> block whose \<open>catch\<close> would
  return 400, so their exception reaches the handler of \<open>fetch\<close>, which returns the
  message of the exception with status 500 and touches no cache tier.
\<close>

theorem C1_undecodable_src_is_500:
  assumes "sp_get (req_searchParams rq) ''src'' = Some b64" and "b64 \<noteq> []"
    and "atob R b64 = Inl msg \<or> (\<exists>u. atob R b64 = Inr u \<and> new_URL R u = Inl msg)"
  shows "fetch R rq e = (text_response msg 500, [])"
  using assms by (auto simp add: fetch_def handleRequest_def Let_def)

theorem C1_undecodable_src_is_500_witness:
  "fetch (example_runtime Map.empty Thrown)
     \<lparr>req_url = ''https://img.example/?src=!!!'', req_searchParams = [(''src'', ''!!!'')],
      req_headers = []\<rparr> (example_env Map.empty)
   = (text_response ''InvalidCharacterError'' 500, []) \<and>
   fetch (example_runtime Map.empty Thrown)
     \<lparr>req_url = ''https://img.example/?src=bm90IGEgdXJs'',
      req_searchParams = [(''src'', ''bm90IGEgdXJs'')], req_headers = []\<rparr> (example_env Map.empty)
   = (text_response ''Invalid URL'' 500, [])"
proof -
  let ?R = "example_runtime Map.empty Thrown"
  have a: "atob ?R ''!!!'' = Inl ''InvalidCharacterError''"
    by (simp add: example_runtime_def lookup_or_throw_def)
  have b: "atob ?R ''bm90IGEgdXJs'' = Inr ''not a url''"
    by (simp add: example_runtime_def lookup_or_throw_def)
  have c: "new_URL ?R ''not a url'' = Inl ''Invalid URL''"
    by (simp add: example_runtime_def lookup_or_throw_def)
  show ?thesis
    using C1_undecodable_src_is_500 [of "\<lparr>req_url = ''https://img.example/?src=!!!'',
        req_searchParams = [(''src'', ''!!!'')], req_headers = []\<rparr>" "''!!!''" ?R
        "''InvalidCharacterError''" "example_env Map.empty"]
      C1_undecodable_src_is_500 [of "\<lparr>req_url = ''https://img.example/?src=bm90IGEgdXJs'',
        req_searchParams = [(''src'', ''bm90IGEgdXJs'')], req_headers = []\<rparr>" "''bm90IGEgdXJs''" ?R
        "''Invalid URL''" "example_env Map.empty"]
      a b c
    by (simp add: sp_get_def)
qed

text \<open>
  Claim C2 says that requests with the same \<open>src\<close> and the same recognised options
  share a cache key whatever their headers, and that requests differing in \<open>src\<close> or in
  an option never share one. The key is the plain concatenation of \<open>test-\<close>, the decoded
  \<open>src\<close> and the entries joined by \<open>-\<close>, with the negotiated format among the entries.
  The width \<open>1-height:2\<close> alone gives the key of width \<open>1\<close> with height \<open>2\<close>; and
  an Accept header that mentions avif changes the key of otherwise equal requests.
\<close>

theorem C2_distinct_options_share_a_key:
  "resizeOptions (jpg_request [(''w'', ''1-height:2'')] [])
     \<noteq> resizeOptions (jpg_request [(''w'', ''1''), (''h'', ''2'')] []) \<and>
   cacheKey ''https://s3.medialoot.com/a.jpg'' (resizeOptions (jpg_request [(''w'', ''1-height:2'')] []))
     = cacheKey ''https://s3.medialoot.com/a.jpg''
         (resizeOptions (jpg_request [(''w'', ''1''), (''h'', ''2'')] [])) \<and>
   cacheKey ''https://s3.medialoot.com/a.jpg''
       (resizeOptions (jpg_request [(''w'', ''100'')] [(''Accept'', ''image/avif'')]))
     \<noteq> cacheKey ''https://s3.medialoot.com/a.jpg'' (resizeOptions (jpg_request [(''w'', ''100'')] []))"
  by (simp add: option_eval key_eval)

text \<open>
  Claim C2 as amended. The cache key is determined by the decoded \<open>src\<close> and by what
  the option parser reads (the parameters \<open>fit\<close>, \<open>w\<close>, \<open>h\<close>, \<open>q\<close>, \<open>enlarge\<close> and
  whether the Accept header mentions avif and webp), so requests that agree on these
  share a key. For the same options, different decoded sources give different keys.
  For the same decoded source, different option entries give different keys provided no
  value of \<open>fit\<close>, \<open>w\<close>, \<open>h\<close>, \<open>q\<close> contains \<open>-\<close> or is the text \<open>undefined\<close>.
\<close>

theorem C2_cacheKey_determined_and_separating:
  "(same_options rqa rqb \<longrightarrow>
      cacheKey u (resizeOptions rqa) = cacheKey u (resizeOptions rqb)) \<and>
   (u \<noteq> v \<longrightarrow> cacheKey u ob \<noteq> cacheKey v ob) \<and>
   (plain_options rqa \<and> plain_options rqb \<and> resizeOptions rqa \<noteq> resizeOptions rqb \<longrightarrow>
      cacheKey u (resizeOptions rqa) \<noteq> cacheKey u (resizeOptions rqb))"
proof (intro conjI impI)
  assume "same_options rqa rqb"
  then show "cacheKey u (resizeOptions rqa) = cacheKey u (resizeOptions rqb)"
    by (simp add: same_options_resizeOptions)
next
  assume "u \<noteq> v"
  then show "cacheKey u ob \<noteq> cacheKey v ob"
    by (simp add: cacheKey_same_options)
next
  assume a: "plain_options rqa \<and> plain_options rqb \<and> resizeOptions rqa \<noteq> resizeOptions rqb"
  then have "list_all plain_entry (resizeOptions rqa)" "list_all plain_entry (resizeOptions rqb)"
    by (simp_all add: plain_resizeOptions)
  with a have "optionsKey (resizeOptions rqa) \<noteq> optionsKey (resizeOptions rqb)"
    using optionsKey_inj by blast
  then show "cacheKey u (resizeOptions rqa) \<noteq> cacheKey u (resizeOptions rqb)"
    by (simp add: cacheKey_same_src)
qed

theorem C2_cacheKey_determined_and_separating_witness:
  "cacheKey ''https://s3.medialoot.com/a.jpg''
       (resizeOptions (jpg_request [(''w'', ''100'')] [(''User-Agent'', ''one'')]))
     = cacheKey ''https://s3.medialoot.com/a.jpg''
         (resizeOptions (jpg_request [(''w'', ''100'')] [(''User-Agent'', ''two'')])) \<and>
   cacheKey ''https://s3.medialoot.com/a.jpg'' (resizeOptions (jpg_request [(''w'', ''100'')] []))
     \<noteq> cacheKey ''https://s3.medialoot.com/a.png'' (resizeOptions (jpg_request [(''w'', ''100'')] [])) \<and>
   cacheKey ''https://s3.medialoot.com/a.jpg'' (resizeOptions (jpg_request [(''w'', ''100'')] []))
     \<noteq> cacheKey ''https://s3.medialoot.com/a.jpg'' (resizeOptions (jpg_request [(''w'', ''200'')] []))"
proof -
  let ?a = "jpg_request [(''w'', ''100'')] [(''User-Agent'', ''one'')]"
  let ?b = "jpg_request [(''w'', ''100'')] [(''User-Agent'', ''two'')]"
  let ?c = "jpg_request [(''w'', ''100'')] []"
  let ?d = "jpg_request [(''w'', ''200'')] []"
  have h1: "same_options ?a ?b"
    by (simp add: same_options_def option_eval)
  have h2: "''https://s3.medialoot.com/a.jpg'' \<noteq> ''https://s3.medialoot.com/a.png''"
    by simp
  have h3: "plain_options ?c \<and> plain_options ?d \<and> resizeOptions ?c \<noteq> resizeOptions ?d"
    by (simp add: plain_options_def plain_value_def option_eval)
  show ?thesis
    using C2_cacheKey_determined_and_separating [of ?a ?b "''https://s3.medialoot.com/a.jpg''"]
      C2_cacheKey_determined_and_separating [of ?c ?c "''https://s3.medialoot.com/a.jpg''"
        "''https://s3.medialoot.com/a.png''" "resizeOptions ?c"]
      C2_cacheKey_determined_and_separating [of ?c ?d "''https://s3.medialoot.com/a.jpg''"]
      h1 h2 h3
    by blast
qed

text \<open>
  Claim C3 says that an empty body from the image service ends in status 500 with no
  write to the bucket. In the worker the body is an \<open>ArrayBuffer\<close>, which is truthy
  also when empty, so both tests on \<open>image\<close> pass: the empty body is put in the bucket
  under the cache key and served with status 200.
\<close>

theorem C3_empty_body_is_served_and_stored:
  assumes "valid_source R rq u p" and "tiers_miss R e rq u"
    and "images_fetch R (service_request rq u) = Completed st (Inr [])"
  shows "status (fst (fetch R rq e)) = 200 \<and> body (fst (fetch R rq e)) = Binary [] \<and>
         WaitUntil_BucketPut (cacheKey u (resizeOptions rq)) [] \<in> set (snd (fetch R rq e))"
  using handleRequest_completed [OF assms] by (simp add: fetch_def image_response_def)

theorem C3_empty_body_is_served_and_stored_witness:
  "status (fst (fetch (example_runtime Map.empty (Completed 200 (Inr []))) (jpg_request [(''w'', ''100'')] [])
      (example_env Map.empty))) = 200 \<and>
   body (fst (fetch (example_runtime Map.empty (Completed 200 (Inr []))) (jpg_request [(''w'', ''100'')] [])
      (example_env Map.empty))) = Binary [] \<and>
   WaitUntil_BucketPut ''test-https://s3.medialoot.com/a.jpgwidth:100'' []
     \<in> set (snd (fetch (example_runtime Map.empty (Completed 200 (Inr []))) (jpg_request [(''w'', ''100'')] [])
      (example_env Map.empty)))"
proof -
  have k: "cacheKey ''https://s3.medialoot.com/a.jpg'' (resizeOptions (jpg_request [(''w'', ''100'')] []))
        = ''test-https://s3.medialoot.com/a.jpgwidth:100''"
    by (simp add: cacheKey_def optionsKey_def resizeOptions_def parse_options_def copy_params_def
        copy_param_def sp_has_def sp_get_def enlarge_alias_def negotiate_def jpg_request_def
        example_request_def accept_of_def headers_get_def get_prop_def)
  let ?R = "example_runtime Map.empty (Completed 200 (Inr []))"
  have v: "valid_source ?R (jpg_request [(''w'', ''100'')] []) ''https://s3.medialoot.com/a.jpg'' ''/a.jpg''"
    by (rule example_valid_jpg)
  have m: "tiers_miss ?R (example_env Map.empty) (jpg_request [(''w'', ''100'')] []) ''https://s3.medialoot.com/a.jpg''"
    by (rule example_tiers_miss)
  have f: "images_fetch ?R (service_request (jpg_request [(''w'', ''100'')] []) ''https://s3.medialoot.com/a.jpg'')
             = Completed 200 (Inr [])"
    by (rule example_images_fetch)
  show ?thesis
    using C3_empty_body_is_served_and_stored [OF v m f] by (simp add: k)
qed

text \<open>
  Claim C4 says that \<open>resizeOptions\<close> holds a key only if its query parameter is present
  with a non-empty value, and that an empty parameter adds nothing to the cache key. For
  the query \<open>w=&enlarge=true\<close> the object holds \<open>width\<close>, with the value \<open>undefined\<close>,
  and \<open>fit\<close>, which the alias supplied although no \<open>fit\<close> parameter is present; the
  serialised options are \<open>width:undefined-fit:cover\<close>.
\<close>

theorem C4_empty_parameter_leaves_a_key:
  "sp_get (req_searchParams (jpg_request [(''w'', ''''), (''enlarge'', ''true'')] [])) ''w'' = Some '''' \<and>
   has_prop (resizeOptions (jpg_request [(''w'', ''''), (''enlarge'', ''true'')] [])) ''width'' \<and>
   sp_get (req_searchParams (jpg_request [(''w'', ''''), (''enlarge'', ''true'')] [])) ''fit'' = None \<and>
   has_prop (resizeOptions (jpg_request [(''w'', ''''), (''enlarge'', ''true'')] [])) ''fit'' \<and>
   optionsKey (resizeOptions (jpg_request [(''w'', ''''), (''enlarge'', ''true'')] []))
     = ''width:undefined-fit:cover''"
  by (simp add: option_eval key_eval)

text \<open>
  Claim C4 as amended. \<open>resizeOptions\<close> holds the key \<open>width\<close>, \<open>height\<close> or \<open>quality\<close>
  only if the parameter \<open>w\<close>, \<open>h\<close> or \<open>q\<close> is present in the query, and the key \<open>fit\<close>
  only if \<open>fit\<close> is present or \<open>enlarge\<close> is \<open>true\<close>. A key holds a string only if its
  parameter is present with that string, which is not empty; for \<open>fit\<close> the string may
  also be the \<open>cover\<close> of the alias.
\<close>

theorem C4_keys_and_values_follow_parameters:
  "(has_prop (resizeOptions rq) ''fit'' \<longrightarrow>
      sp_has (req_searchParams rq) ''fit'' \<or> sp_get (req_searchParams rq) ''enlarge'' = Some ''true'') \<and>
   (has_prop (resizeOptions rq) ''width'' \<longrightarrow> sp_has (req_searchParams rq) ''w'') \<and>
   (has_prop (resizeOptions rq) ''height'' \<longrightarrow> sp_has (req_searchParams rq) ''h'') \<and>
   (has_prop (resizeOptions rq) ''quality'' \<longrightarrow> sp_has (req_searchParams rq) ''q'') \<and>
   (get_prop (resizeOptions rq) ''fit'' = Str v \<longrightarrow>
      sp_get (req_searchParams rq) ''fit'' = Some v \<and> v \<noteq> [] \<or>
      v = ''cover'' \<and> sp_get (req_searchParams rq) ''enlarge'' = Some ''true'') \<and>
   (get_prop (resizeOptions rq) ''width'' = Str v \<longrightarrow>
      sp_get (req_searchParams rq) ''w'' = Some v \<and> v \<noteq> []) \<and>
   (get_prop (resizeOptions rq) ''height'' = Str v \<longrightarrow>
      sp_get (req_searchParams rq) ''h'' = Some v \<and> v \<noteq> []) \<and>
   (get_prop (resizeOptions rq) ''quality'' = Str v \<longrightarrow>
      sp_get (req_searchParams rq) ''q'' = Some v \<and> v \<noteq> [])"
  using fit_value_Str [of "req_searchParams rq" v]
  by (simp add: has_fit keys_resizeOptions values_resizeOptions get_fit or_undefined_eq_Str)

theorem C4_keys_and_values_follow_parameters_witness:
  "get_prop (resizeOptions (jpg_request
       [(''fit'', ''contain''), (''w'', ''100''), (''h'', ''50''), (''q'', ''80'')] [])) ''fit''
     = Str ''contain'' \<and>
   sp_get (req_searchParams (jpg_request
       [(''fit'', ''contain''), (''w'', ''100''), (''h'', ''50''), (''q'', ''80'')] [])) ''fit''
     = Some ''contain'' \<and>
   sp_get (req_searchParams (jpg_request
       [(''fit'', ''contain''), (''w'', ''100''), (''h'', ''50''), (''q'', ''80'')] [])) ''w''
     = Some ''100'' \<and>
   sp_get (req_searchParams (jpg_request
       [(''fit'', ''contain''), (''w'', ''100''), (''h'', ''50''), (''q'', ''80'')] [])) ''h''
     = Some ''50'' \<and>
   sp_get (req_searchParams (jpg_request
       [(''fit'', ''contain''), (''w'', ''100''), (''h'', ''50''), (''q'', ''80'')] [])) ''q''
     = Some ''80'' \<and>
   sp_has (req_searchParams (jpg_request
       [(''fit'', ''contain''), (''w'', ''100''), (''h'', ''50''), (''q'', ''80'')] [])) ''w''"
proof -
  let ?rq = "jpg_request [(''fit'', ''contain''), (''w'', ''100''), (''h'', ''50''), (''q'', ''80'')] []"
  have ob: "resizeOptions ?rq = [(''fit'', Str ''contain''), (''width'', Str ''100''),
      (''height'', Str ''50''), (''quality'', Str ''80'')]"
    by (simp add: option_eval)
  have g: "get_prop (resizeOptions ?rq) ''fit'' = Str ''contain''"
    "get_prop (resizeOptions ?rq) ''width'' = Str ''100''"
    "get_prop (resizeOptions ?rq) ''height'' = Str ''50''"
    "get_prop (resizeOptions ?rq) ''quality'' = Str ''80''"
    "has_prop (resizeOptions ?rq) ''width''"
    unfolding ob by (simp_all add: get_prop_def has_prop_def)
  show ?thesis
    using C4_keys_and_values_follow_parameters [of ?rq "''contain''"]
      C4_keys_and_values_follow_parameters [of ?rq "''100''"]
      C4_keys_and_values_follow_parameters [of ?rq "''50''"]
      C4_keys_and_values_follow_parameters [of ?rq "''80''"]
      g
    by simp
qed

text \<open>
  Claim C5: the format of the served content type. For a request that passes the source
  checks and is not answered from the edge cache, the \<open>type\<close> computed by lines 25, 39 to
  46, 68 and 69 is the format the specification describes (png and gif by extension,
  whatever the Accept header says, then avif, then webp, then jpeg); a response built by
  the worker carries it as \<open>image/type\<close>; it is one of the five formats; and a pathname
  ending in \<open>.png\<close> or \<open>.gif\<close> resolves to png or gif.
\<close>

theorem C5_format_resolution:
  assumes "valid_source R rq u p" and "caches_default R (req_url rq) = None"
    and "handleRequest R rq e = (Inr resp, tr)" and "status resp = 200"
  shows "mime_override p (snd (parse_options rq)) = spec_format (accept_of rq) p \<and>
         map_of (headers resp) ''content-type'' = Some (''image/'' @ spec_format (accept_of rq) p) \<and>
         spec_format (accept_of rq) p \<in> set [''png'', ''gif'', ''avif'', ''webp'', ''jpeg''] \<and>
         (\<forall>q. p = q @ ''.png'' \<longrightarrow> spec_format (accept_of rq) p = ''png'') \<and>
         (\<forall>q. p = q @ ''.gif'' \<longrightarrow> spec_format (accept_of rq) p = ''gif'')"
  using handleRequest_ok_headers [OF assms] spec_format_range [of "accept_of rq" p]
  by (simp add: type_resolution content_type_image_headers spec_format_literal del: set_simps)

theorem C5_format_resolution_witness:
  "map_of (headers (fst (fetch (example_runtime Map.empty (Completed 200 (Inr [1, 2, 3])))
       (png_request [(''w'', ''100'')] [(''Accept'', ''image/avif,image/webp'')])
       (example_env Map.empty)))) ''content-type'' = Some ''image/png'' \<and>
   map_of (headers (fst (fetch (example_runtime Map.empty (Completed 200 (Inr [1, 2, 3])))
       (jpg_request [(''w'', ''100'')] [(''Accept'', ''image/webp'')])
       (example_env Map.empty)))) ''content-type'' = Some ''image/webp''"
proof -
  let ?R = "example_runtime Map.empty (Completed 200 (Inr [1, 2, 3]))"
  let ?e = "example_env Map.empty"
  let ?rq = "png_request [(''w'', ''100'')] [(''Accept'', ''image/avif,image/webp'')]"
  let ?u = "''https://s3.medialoot.com/a.png''"
  let ?rq' = "jpg_request [(''w'', ''100'')] [(''Accept'', ''image/webp'')]"
  let ?u' = "''https://s3.medialoot.com/a.jpg''"
  have v: "valid_source ?R ?rq ?u ''/a.png''"
    by (rule example_valid_png)
  have m: "tiers_miss ?R ?e ?rq ?u"
    by (rule example_tiers_miss)
  have f: "images_fetch ?R (service_request ?rq ?u) = Completed 200 (Inr [1, 2, 3])"
    by (rule example_images_fetch)
  have c: "caches_default ?R (req_url ?rq) = None"
    by (simp add: example_runtime_def)
  have s: "status (image_response ?e (spec_format (accept_of ?rq) ''/a.png'') [1, 2, 3]) = 200"
    by (simp add: image_response_def)
  note h = handleRequest_completed [OF v m f]
  note t = C5_format_resolution [OF v c h s]
  from t have "\<forall>q. ''/a.png'' = q @ ''.png'' \<longrightarrow> spec_format (accept_of ?rq) ''/a.png'' = ''png''"
    by (elim conjE)
  then have "''/a.png'' = ''/a'' @ ''.png'' \<longrightarrow> spec_format (accept_of ?rq) ''/a.png'' = ''png''"
    by (rule spec)
  then have png: "spec_format (accept_of ?rq) ''/a.png'' = ''png''"
    by simp
  from t have "map_of (headers (image_response ?e (spec_format (accept_of ?rq) ''/a.png'') [1, 2, 3]))
      ''content-type'' = Some (''image/'' @ spec_format (accept_of ?rq) ''/a.png'')"
    by (elim conjE)
  with png h have first: "map_of (headers (fst (fetch ?R ?rq ?e))) ''content-type'' = Some ''image/png''"
    by (simp add: fetch_def)
  have v': "valid_source ?R ?rq' ?u' ''/a.jpg''"
    by (rule example_valid_jpg)
  have m': "tiers_miss ?R ?e ?rq' ?u'"
    by (rule example_tiers_miss)
  have f': "images_fetch ?R (service_request ?rq' ?u') = Completed 200 (Inr [1, 2, 3])"
    by (rule example_images_fetch)
  have c': "caches_default ?R (req_url ?rq') = None"
    by (simp add: example_runtime_def)
  have s': "status (image_response ?e (spec_format (accept_of ?rq') ''/a.jpg'') [1, 2, 3]) = 200"
    by (simp add: image_response_def)
  note h' = handleRequest_completed [OF v' m' f']
  note t' = C5_format_resolution [OF v' c' h' s']
  have webp: "spec_format (accept_of ?rq') ''/a.jpg'' = ''webp''"
    by (simp add: spec_format_def ends_with_ci_def option_eval)
  from t' have "map_of (headers (image_response ?e (spec_format (accept_of ?rq') ''/a.jpg'') [1, 2, 3]))
      ''content-type'' = Some (''image/'' @ spec_format (accept_of ?rq') ''/a.jpg'')"
    by (elim conjE)
  with webp h' have "map_of (headers (fst (fetch ?R ?rq' ?e))) ''content-type'' = Some ''image/webp''"
    by (simp add: fetch_def)
  with first show ?thesis by simp
qed

text \<open>
  Claim C6: on a request that passes the source checks, the edge cache is asked first,
  under the full request URL. On a hit the cached response is returned as it is, and the
  match is the only event: no bucket lookup, no call to the image service, no write. On
  a miss the bucket is asked under the cache key, and on a hit there its bytes are served
  without any call to the image service.
\<close>

theorem C6_first_hit_wins:
  assumes "valid_source R rq u p"
  shows "(caches_default R (req_url rq) = Some cached \<longrightarrow>
            fetch R rq e = (cached, [CacheMatch (req_url rq)])) \<and>
         (caches_default R (req_url rq) = None \<and>
          CACHE_BUCKET e (cacheKey u (resizeOptions rq)) = Some buf \<longrightarrow>
            fetch R rq e =
              (image_response e (spec_format (accept_of rq) p) buf,
               [CacheMatch (req_url rq),
                Log (''Cache miss for: '' @ cacheKey u (resizeOptions rq) @ ''.''),
                BucketGet (cacheKey u (resizeOptions rq)),
                WaitUntil_CachePut (req_url rq)
                  (image_response e (spec_format (accept_of rq) p) buf)]))"
  by (simp add: fetch_def handleRequest_valid_format [OF assms] waterfall_edge_hit
      waterfall_bucket_hit image_response_def)

theorem C6_first_hit_wins_witness:
  "fetch (example_runtime
       [''https://img.example/?src=aHR0cHM6Ly9zMy5tZWRpYWxvb3QuY29tL2EuanBn&w=100''
          \<mapsto> text_response ''cached'' 200] Thrown)
     (jpg_request [(''w'', ''100'')] []) (example_env Map.empty)
   = (text_response ''cached'' 200,
      [CacheMatch ''https://img.example/?src=aHR0cHM6Ly9zMy5tZWRpYWxvb3QuY29tL2EuanBn&w=100'']) \<and>
   fetch (example_runtime Map.empty Thrown) (jpg_request [(''w'', ''100'')] [])
     (example_env [''test-https://s3.medialoot.com/a.jpgwidth:100'' \<mapsto> [7, 8, 9]])
   = (image_response (example_env [''test-https://s3.medialoot.com/a.jpgwidth:100'' \<mapsto> [7, 8, 9]])
        ''jpeg'' [7, 8, 9],
      [CacheMatch ''https://img.example/?src=aHR0cHM6Ly9zMy5tZWRpYWxvb3QuY29tL2EuanBn&w=100'',
       Log ''Cache miss for: test-https://s3.medialoot.com/a.jpgwidth:100.'',
       BucketGet ''test-https://s3.medialoot.com/a.jpgwidth:100'',
       WaitUntil_CachePut ''https://img.example/?src=aHR0cHM6Ly9zMy5tZWRpYWxvb3QuY29tL2EuanBn&w=100''
         (image_response
            (example_env [''test-https://s3.medialoot.com/a.jpgwidth:100'' \<mapsto> [7, 8, 9]])
            ''jpeg'' [7, 8, 9])])"
proof -
  let ?url = "''https://img.example/?src=aHR0cHM6Ly9zMy5tZWRpYWxvb3QuY29tL2EuanBn&w=100''"
  let ?key = "''test-https://s3.medialoot.com/a.jpgwidth:100''"
  let ?rq = "jpg_request [(''w'', ''100'')] []"
  let ?u = "''https://s3.medialoot.com/a.jpg''"
  let ?R = "example_runtime [?url \<mapsto> text_response ''cached'' 200] Thrown"
  let ?R' = "example_runtime Map.empty Thrown"
  let ?e' = "example_env [?key \<mapsto> [7, 8, 9]]"
  have url: "req_url ?rq = ?url"
    by (simp add: jpg_request_def example_request_def)
  have key: "cacheKey ?u (resizeOptions ?rq) = ?key"
    by (simp add: option_eval key_eval)
  have fmt: "spec_format (accept_of ?rq) ''/a.jpg'' = ''jpeg''"
    by (simp add: spec_format_def ends_with_ci_def option_eval)
  have hit: "caches_default ?R (req_url ?rq) = Some (text_response ''cached'' 200)"
    unfolding url by (simp add: example_runtime_def)
  have miss: "caches_default ?R' (req_url ?rq) = None
      \<and> CACHE_BUCKET ?e' (cacheKey ?u (resizeOptions ?rq)) = Some [7, 8, 9]"
    unfolding key by (simp add: example_runtime_def example_env_def)
  have one: "fetch ?R ?rq (example_env Map.empty) = (text_response ''cached'' 200, [CacheMatch ?url])"
    using C6_first_hit_wins [OF example_valid_jpg, of "[?url \<mapsto> text_response ''cached'' 200]"
        Thrown "[(''w'', ''100'')]" "[]" "text_response ''cached'' 200" "example_env Map.empty"]
      hit url
    by simp
  have two: "fetch ?R' ?rq ?e' =
      (image_response ?e' ''jpeg'' [7, 8, 9],
       [CacheMatch ?url, Log (''Cache miss for: '' @ ?key @ ''.''), BucketGet ?key,
        WaitUntil_CachePut ?url (image_response ?e' ''jpeg'' [7, 8, 9])])"
    using C6_first_hit_wins [OF example_valid_jpg, of Map.empty
        Thrown "[(''w'', ''100'')]" "[]" _ ?e' "[7, 8, 9]"]
      miss url key fmt
    by simp
  from one two show ?thesis by simp
qed

text \<open>
  Claim C7: when the call to the image service throws, the response has status 404 and
  nothing is written to the bucket.
\<close>

theorem C7_service_failure_is_404_without_write:
  assumes "valid_source R rq u p" and "tiers_miss R e rq u"
    and "images_fetch R (service_request rq u) = Thrown"
  shows "status (fst (fetch R rq e)) = 404 \<and>
         (\<forall>k b. WaitUntil_BucketPut k b \<notin> set (snd (fetch R rq e)))"
  using handleRequest_thrown [OF assms] by (auto simp add: fetch_def)

theorem C7_service_failure_is_404_without_write_witness:
  "status (fst (fetch (example_runtime Map.empty Thrown) (jpg_request [(''w'', ''100'')] [])
      (example_env Map.empty))) = 404 \<and>
   (\<forall>k b. WaitUntil_BucketPut k b \<notin> set (snd (fetch (example_runtime Map.empty Thrown)
      (jpg_request [(''w'', ''100'')] []) (example_env Map.empty))))"
proof -
  let ?R = "example_runtime Map.empty (Thrown)"
  have v: "valid_source ?R (jpg_request [(''w'', ''100'')] []) ''https://s3.medialoot.com/a.jpg'' ''/a.jpg''"
    by (rule example_valid_jpg)
  have m: "tiers_miss ?R (example_env Map.empty) (jpg_request [(''w'', ''100'')] []) ''https://s3.medialoot.com/a.jpg''"
    by (rule example_tiers_miss)
  have f: "images_fetch ?R (service_request (jpg_request [(''w'', ''100'')] []) ''https://s3.medialoot.com/a.jpg'')
             = Thrown"
    by (rule example_images_fetch)
  show ?thesis
    using C7_service_failure_is_404_without_write [OF v m f] by simp
qed

text \<open>
  Claim C8 says that the alias is not applied when the \<open>fit\<close> parameter is present with
  any value. The worker tests the truthiness of \<open>resizeOptions.fit\<close>, so a \<open>fit\<close> that is
  present but empty takes the alias: the query \<open>fit=&enlarge=true\<close> gives \<open>fit=cover\<close>.
\<close>

theorem C8_empty_fit_takes_the_alias:
  "sp_has (req_searchParams (jpg_request [(''fit'', ''''), (''enlarge'', ''true'')] [])) ''fit'' \<and>
   resizeOptions (jpg_request [(''fit'', ''''), (''enlarge'', ''true'')] []) = [(''fit'', Str ''cover'')]"
  by (simp add: option_eval)

text \<open>
  Claim C8 as amended. The assignment of line 35 is made if and only if the \<open>fit\<close>
  parameter is absent or empty and \<open>enlarge\<close> equals \<open>true\<close>; a \<open>fit\<close> parameter with a
  non-empty value is kept, and without the alias an absent or empty \<open>fit\<close> leaves the
  value \<open>undefined\<close>.
\<close>

theorem C8_alias_when_fit_absent_or_empty:
  "enlarge_alias (req_searchParams rq) (copy_params (req_searchParams rq)) =
     (if (sp_get (req_searchParams rq) ''fit'' = None \<or> sp_get (req_searchParams rq) ''fit'' = Some [])
         \<and> sp_get (req_searchParams rq) ''enlarge'' = Some ''true''
      then set_prop (copy_params (req_searchParams rq)) ''fit'' (Str ''cover'')
      else copy_params (req_searchParams rq)) \<and>
   get_prop (resizeOptions rq) ''fit'' = fit_value (req_searchParams rq)"
  by (auto simp add: enlarge_alias_def get_prop_copy_params truthy_or_undefined get_fit)

theorem C8_alias_when_fit_absent_or_empty_witness:
  "get_prop (resizeOptions (jpg_request [(''enlarge'', ''true'')] [])) ''fit'' = Str ''cover'' \<and>
   get_prop (resizeOptions (jpg_request [(''fit'', ''contain''), (''enlarge'', ''true'')] [])) ''fit''
     = Str ''contain'' \<and>
   get_prop (resizeOptions (jpg_request [(''enlarge'', ''yes'')] [])) ''fit'' = Undefined"
  using C8_alias_when_fit_absent_or_empty [of "jpg_request [(''enlarge'', ''true'')] []"]
    C8_alias_when_fit_absent_or_empty
      [of "jpg_request [(''fit'', ''contain''), (''enlarge'', ''true'')] []"]
    C8_alias_when_fit_absent_or_empty [of "jpg_request [(''enlarge'', ''yes'')] []"]
  by (simp add: fit_value_def alias_value_def jpg_request_def example_request_def sp_get_def)

text \<open>
  Claim C9: whatever status the image service responds with, the bytes of its body are
  written to the bucket under the cache key and served with status 200.
\<close>

theorem C9_service_status_is_not_inspected:
  assumes "valid_source R rq u p" and "tiers_miss R e rq u"
    and "images_fetch R (service_request rq u) = Completed st (Inr buf)"
  shows "status (fst (fetch R rq e)) = 200 \<and> body (fst (fetch R rq e)) = Binary buf \<and>
         WaitUntil_BucketPut (cacheKey u (resizeOptions rq)) buf \<in> set (snd (fetch R rq e))"
  using handleRequest_completed [OF assms] by (simp add: fetch_def image_response_def)

theorem C9_service_status_is_not_inspected_witness:
  "status (fst (fetch (example_runtime Map.empty (Completed 404 (Inr [60, 104, 49, 62])))
      (jpg_request [(''w'', ''100'')] []) (example_env Map.empty))) = 200 \<and>
   body (fst (fetch (example_runtime Map.empty (Completed 404 (Inr [60, 104, 49, 62])))
      (jpg_request [(''w'', ''100'')] []) (example_env Map.empty))) = Binary [60, 104, 49, 62] \<and>
   WaitUntil_BucketPut (cacheKey ''https://s3.medialoot.com/a.jpg'' (resizeOptions (jpg_request [(''w'', ''100'')] [])))
      [60, 104, 49, 62]
     \<in> set (snd (fetch (example_runtime Map.empty (Completed 404 (Inr [60, 104, 49, 62])))
      (jpg_request [(''w'', ''100'')] []) (example_env Map.empty)))"
proof -
  let ?R = "example_runtime Map.empty (Completed 404 (Inr [60, 104, 49, 62]))"
  have v: "valid_source ?R (jpg_request [(''w'', ''100'')] []) ''https://s3.medialoot.com/a.jpg'' ''/a.jpg''"
    by (rule example_valid_jpg)
  have m: "tiers_miss ?R (example_env Map.empty) (jpg_request [(''w'', ''100'')] []) ''https://s3.medialoot.com/a.jpg''"
    by (rule example_tiers_miss)
  have f: "images_fetch ?R (service_request (jpg_request [(''w'', ''100'')] []) ''https://s3.medialoot.com/a.jpg'')
             = Completed 404 (Inr [60, 104, 49, 62])"
    by (rule example_images_fetch)
  show ?thesis
    using C9_service_status_is_not_inspected [OF v m f] by simp
qed

text \<open>
  Claim C10: for a png or gif source the extension decides the content type only. The
  \<open>format\<close> entry of \<open>resizeOptions\<close> is the one negotiated from the Accept header (avif or
  webp, or no entry), and the object with this entry is what the image service receives
  and what the cache key, used for the bucket lookup and write, is built from.
\<close>

theorem C10_override_changes_content_type_only:
  assumes "valid_source R rq u p" and "tiers_miss R e rq u"
    and "images_fetch R (service_request rq u) = Completed st (Inr buf)"
    and "ends_with_ci ''.png'' p \<or> ends_with_ci ''.gif'' p"
  shows "get_prop (resizeOptions rq) ''format'' = negotiated_format (accept_of rq) \<and>
         (has_prop (resizeOptions rq) ''format'' \<longleftrightarrow> negotiated_format (accept_of rq) \<noteq> Undefined) \<and>
         ImagesFetch \<lparr>target = u, forwarded = req_headers rq, cf_image = resizeOptions rq\<rparr>
           \<in> set (snd (fetch R rq e)) \<and>
         BucketGet (''test-'' @ u @ optionsKey (resizeOptions rq)) \<in> set (snd (fetch R rq e)) \<and>
         WaitUntil_BucketPut (''test-'' @ u @ optionsKey (resizeOptions rq)) buf
           \<in> set (snd (fetch R rq e)) \<and>
         map_of (headers (fst (fetch R rq e))) ''content-type''
           = Some (''image/'' @ (if ends_with_ci ''.png'' p then ''png'' else ''gif''))"
proof -
  have "spec_format (accept_of rq) p = (if ends_with_ci ''.png'' p then ''png'' else ''gif'')"
    using assms(4) by (auto simp add: spec_format_def)
  then show ?thesis
    using handleRequest_completed [OF assms(1-3)]
    by (simp add: fetch_def get_prop_format has_prop_format service_request_def cacheKey_def
        image_response_def content_type_image_headers)
qed

theorem C10_override_changes_content_type_only_witness:
  "ImagesFetch \<lparr>target = ''https://s3.medialoot.com/a.png'',
        forwarded = [(''Accept'', ''image/avif,image/webp'')],
        cf_image = [(''width'', Str ''100''), (''format'', Str ''avif'')]\<rparr>
     \<in> set (snd (fetch (example_runtime Map.empty (Completed 200 (Inr [1, 2, 3])))
          (png_request [(''w'', ''100'')] [(''Accept'', ''image/avif,image/webp'')])
          (example_env Map.empty))) \<and>
   WaitUntil_BucketPut ''test-https://s3.medialoot.com/a.pngwidth:100-format:avif'' [1, 2, 3]
     \<in> set (snd (fetch (example_runtime Map.empty (Completed 200 (Inr [1, 2, 3])))
          (png_request [(''w'', ''100'')] [(''Accept'', ''image/avif,image/webp'')])
          (example_env Map.empty))) \<and>
   map_of (headers (fst (fetch (example_runtime Map.empty (Completed 200 (Inr [1, 2, 3])))
          (png_request [(''w'', ''100'')] [(''Accept'', ''image/avif,image/webp'')])
          (example_env Map.empty)))) ''content-type'' = Some ''image/png''"
proof -
  let ?R = "example_runtime Map.empty (Completed 200 (Inr [1, 2, 3]))"
  let ?e = "example_env Map.empty"
  let ?rq = "png_request [(''w'', ''100'')] [(''Accept'', ''image/avif,image/webp'')]"
  let ?u = "''https://s3.medialoot.com/a.png''"
  have v: "valid_source ?R ?rq ?u ''/a.png''"
    by (rule example_valid_png)
  have m: "tiers_miss ?R ?e ?rq ?u"
    by (rule example_tiers_miss)
  have f: "images_fetch ?R (service_request ?rq ?u) = Completed 200 (Inr [1, 2, 3])"
    by (rule example_images_fetch)
  have x: "ends_with_ci ''.png'' ''/a.png'' \<or> ends_with_ci ''.gif'' ''/a.png''"
    by (simp add: ends_with_ci_def lower_def)
  have png: "ends_with_ci ''.png'' ''/a.png''"
    by (simp add: ends_with_ci_def lower_def)
  have ob: "resizeOptions ?rq = [(''width'', Str ''100''), (''format'', Str ''avif'')]"
    by (simp add: option_eval)
  have hs: "req_headers ?rq = [(''Accept'', ''image/avif,image/webp'')]"
    by (simp add: png_request_def example_request_def)
  have k: "optionsKey [(''width'', Str ''100''), (''format'', Str ''avif'')] = ''width:100-format:avif''"
    by (simp add: optionsKey_def)
  show ?thesis
    using C10_override_changes_content_type_only [OF v m f x] png
    by (simp add: ob hs k)
qed

end
